theory Spec2Isabelle
  imports Complex_Main
begin

section \<open>JavaScript values\<close>

text \<open>
  The dashboard is TypeScript running on a JavaScript engine. A \<^verbatim>\<open>number\<close> is a
  double: the model keeps the three special values the code can meet (NaN and the two
  infinities) and takes the finite doubles as reals, so rounding of finite arithmetic
  and the sign of zero are not modelled.
\<close>

datatype number = Fin real | PInf | NInf | NaN

fun js_add :: "number \<Rightarrow> number \<Rightarrow> number" where
  "js_add (Fin a) (Fin b) = Fin (a + b)"
| "js_add (Fin a) PInf = PInf"
| "js_add (Fin a) NInf = NInf"
| "js_add PInf (Fin b) = PInf"
| "js_add PInf PInf = PInf"
| "js_add PInf NInf = NaN"
| "js_add NInf (Fin b) = NInf"
| "js_add NInf PInf = NaN"
| "js_add NInf NInf = NInf"
| "js_add NaN y = NaN"
| "js_add x NaN = NaN"

fun js_neg :: "number \<Rightarrow> number" where
  "js_neg (Fin a) = Fin (- a)"
| "js_neg PInf = NInf"
| "js_neg NInf = PInf"
| "js_neg NaN = NaN"

definition js_sub :: "number \<Rightarrow> number \<Rightarrow> number" where
  "js_sub x y = js_add x (js_neg y)"

fun js_mul :: "number \<Rightarrow> number \<Rightarrow> number" where
  "js_mul (Fin a) (Fin b) = Fin (a * b)"
| "js_mul (Fin a) PInf = (if a = 0 then NaN else if 0 < a then PInf else NInf)"
| "js_mul (Fin a) NInf = (if a = 0 then NaN else if 0 < a then NInf else PInf)"
| "js_mul PInf (Fin b) = (if b = 0 then NaN else if 0 < b then PInf else NInf)"
| "js_mul NInf (Fin b) = (if b = 0 then NaN else if 0 < b then NInf else PInf)"
| "js_mul PInf PInf = PInf"
| "js_mul PInf NInf = NInf"
| "js_mul NInf PInf = NInf"
| "js_mul NInf NInf = PInf"
| "js_mul NaN y = NaN"
| "js_mul x NaN = NaN"

text \<open>
  Division: a zero divisor gives an infinity, or NaN for \<open>0 / 0\<close> (the divisor is
  read as \<open>+0\<close>).
\<close>

fun js_div :: "number \<Rightarrow> number \<Rightarrow> number" where
  "js_div (Fin a) (Fin b) =
     (if b \<noteq> 0 then Fin (a / b) else if a = 0 then NaN else if 0 < a then PInf else NInf)"
| "js_div (Fin a) PInf = Fin 0"
| "js_div (Fin a) NInf = Fin 0"
| "js_div PInf (Fin b) = (if 0 \<le> b then PInf else NInf)"
| "js_div NInf (Fin b) = (if 0 \<le> b then NInf else PInf)"
| "js_div PInf PInf = NaN"
| "js_div PInf NInf = NaN"
| "js_div NInf PInf = NaN"
| "js_div NInf NInf = NaN"
| "js_div NaN y = NaN"
| "js_div x NaN = NaN"

text \<open>The comparison \<^verbatim>\<open>x > y\<close>: false as soon as one side is NaN.\<close>

fun js_gt :: "number \<Rightarrow> number \<Rightarrow> bool" where
  "js_gt (Fin a) (Fin b) = (b < a)"
| "js_gt (Fin a) NInf = True"
| "js_gt PInf (Fin b) = True"
| "js_gt PInf NInf = True"
| "js_gt x y = False"

text \<open>\<^verbatim>\<open>Math.round\<close>: the nearest integer, halves upwards.\<close>

fun js_round :: "number \<Rightarrow> number" where
  "js_round (Fin a) = Fin (of_int \<lfloor>a + 1 / 2\<rfloor>)"
| "js_round x = x"

text \<open>\<^verbatim>\<open>x || 0\<close> on a number: the falsy numbers are 0 and NaN.\<close>

definition or_zero :: "number \<Rightarrow> number" where
  "or_zero x = (if x = Fin 0 \<or> x = NaN then Fin 0 else x)"

text \<open>\<^verbatim>\<open>xs.reduce((a, b) => a + b, 0)\<close>: a left fold from 0.\<close>

definition js_sum :: "number list \<Rightarrow> number" where
  "js_sum xs = foldl js_add (Fin 0) xs"

text \<open>
  A lookup \<^verbatim>\<open>table[key]\<close> in an object literal (\<^verbatim>\<open>Record<string, string>\<close>)
  finds the literal's own entry, or else a member inherited from
  \<^verbatim>\<open>Object.prototype\<close> (a function, or the prototype object for
  \<^verbatim>\<open>__proto__\<close>), or else \<^verbatim>\<open>undefined\<close>. An inherited member is named
  here by the key that reaches it.
\<close>

datatype jsval = Str string | Obj string | Undefined

definition object_prototype_keys :: "string list" where
  "object_prototype_keys =
     [''constructor'', ''__defineGetter__'', ''__defineSetter__'', ''hasOwnProperty'',
      ''__lookupGetter__'', ''__lookupSetter__'', ''isPrototypeOf'',
      ''propertyIsEnumerable'', ''toString'', ''valueOf'', ''__proto__'',
      ''toLocaleString'']"

definition get_prop :: "(string \<times> string) list \<Rightarrow> string \<Rightarrow> jsval" where
  "get_prop obj k =
     (case map_of obj k of
        Some v \<Rightarrow> Str v
      | None \<Rightarrow> if k \<in> set object_prototype_keys then Obj k else Undefined)"

fun truthy :: "jsval \<Rightarrow> bool" where
  "truthy (Str s) = (s \<noteq> [])"
| "truthy (Obj k) = True"
| "truthy Undefined = False"

text \<open>
  The string a value turns into when it is used as a property key. The text of a
  built-in function is the engine's; this is V8's.
\<close>

fun to_string :: "jsval \<Rightarrow> string" where
  "to_string (Str s) = s"
| "to_string (Obj k) =
     (if k = ''__proto__'' then ''[object Object]''
      else ''function '' @ (if k = ''constructor'' then ''Object'' else k)
             @ ''() { [native code] }'')"
| "to_string Undefined = ''undefined''"

text \<open>\<^verbatim>\<open>lookup || fallback\<close>.\<close>

definition or_else :: "jsval \<Rightarrow> string \<Rightarrow> jsval" where
  "or_else v s = (if truthy v then v else Str s)"

text \<open>
  What a \<^verbatim>\<open>try\<close> block can throw: an \<^verbatim>\<open>Error\<close> (also a TypeError or a
  SyntaxError of the runtime) with its message, or a value that is no Error.
\<close>

datatype thrown = Error string | NonError

section \<open>DateFilterContext\<close>

record DateRange =
  startDate :: string
  endDate :: string

record DateFilter =
  dateRange :: DateRange
  tempDateRange :: DateRange

definition initialRange :: DateRange where
  "initialRange = \<lparr>startDate = ''2010-06-01'', endDate = ''2011-01-01''\<rparr>"

text \<open>The two \<^verbatim>\<open>useState(initialRange)\<close> of the provider.\<close>

definition DateFilterProvider :: DateFilter where
  "DateFilterProvider = \<lparr>dateRange = initialRange, tempDateRange = initialRange\<rparr>"

definition setTempDateRange :: "DateRange \<Rightarrow> DateFilter \<Rightarrow> DateFilter" where
  "setTempDateRange r s = s\<lparr>tempDateRange := r\<rparr>"

definition applyDateRange :: "DateFilter \<Rightarrow> DateFilter" where
  "applyDateRange s = s\<lparr>dateRange := tempDateRange s\<rparr>"

text \<open>
  The context value hands out the two ranges and these two operations; the setter of
  the committed range stays inside the provider.
\<close>

datatype filter_op = SetTempDateRange DateRange | ApplyDateRange

fun run_op :: "filter_op \<Rightarrow> DateFilter \<Rightarrow> DateFilter" where
  "run_op (SetTempDateRange r) s = setTempDateRange r s"
| "run_op ApplyDateRange s = applyDateRange s"

section \<open>ExtremeHeatLoadChart\<close>

record DayLoad =
  day :: string
  load :: number

definition chart_data :: "DayLoad list" where
  "chart_data =
     [\<lparr>day = ''Day 1'', load = Fin 3400\<rparr>,
      \<lparr>day = ''Day 2'', load = Fin 3600\<rparr>,
      \<lparr>day = ''Day 3'', load = Fin 3550\<rparr>,
      \<lparr>day = ''Day 4'', load = Fin 3700\<rparr>,
      \<lparr>day = ''Day 5'', load = Fin 3650\<rparr>]"

text \<open>
  What a render of a component gives: the series handed to the chart, and the URLs its
  effects request. \<^verbatim>\<open>ExtremeHeatLoadChart\<close> has no effect and no state.
\<close>

record 'a rendering =
  series :: "'a list"
  requests :: "string list"

definition ExtremeHeatLoadChart :: "DateRange \<Rightarrow> DayLoad rendering" where
  "ExtremeHeatLoadChart dr = \<lparr>series = chart_data, requests = []\<rparr>"

section \<open>The zone tables\<close>

text \<open>\<^verbatim>\<open>zoneToRegionMap\<close> of DryVsRainyChart.\<close>

definition dryVsRainy_zoneToRegionMap :: "(string \<times> string) list" where
  "dryVsRainy_zoneToRegionMap =
     [(''north'', ''North''), (''north_c'', ''North''),
      (''southern'', ''South''), (''south_c'', ''South''),
      (''west'', ''West''), (''far_west'', ''West''),
      (''coast'', ''Houston''), (''east'', ''Houston'')]"

text \<open>\<^verbatim>\<open>zoneToDisplayMap\<close> of HeatwavesByZoneChart.\<close>

definition heatwaves_zoneToDisplayMap :: "(string \<times> string) list" where
  "heatwaves_zoneToDisplayMap =
     [(''north'', ''North''), (''north_c'', ''North''),
      (''southern'', ''South''), (''south_c'', ''South''),
      (''west'', ''West''), (''far_west'', ''West''),
      (''coast'', ''Houston''), (''east'', ''Houston'')]"

text \<open>\<^verbatim>\<open>zoneToRegionMap\<close> of ExtremeHeatLoadTable.\<close>

definition extremeHeat_zoneToRegionMap :: "(string \<times> string) list" where
  "extremeHeat_zoneToRegionMap =
     [(''north'', ''North''), (''north_c'', ''North''),
      (''southern'', ''South''), (''south_c'', ''South''),
      (''west'', ''West''), (''far_west'', ''West''),
      (''coast'', ''Houston''), (''east'', ''Houston'')]"

text \<open>\<^verbatim>\<open>regionToDisplayMap\<close> of MetricsCard.\<close>

definition metrics_regionToDisplayMap :: "(string \<times> string) list" where
  "metrics_regionToDisplayMap =
     [(''coast'', ''Houston''), (''east'', ''Houston''),
      (''far_west'', ''West''),
      (''north'', ''North''), (''north_c'', ''North''),
      (''southern'', ''South''), (''south_c'', ''South''),
      (''west'', ''West'')]"

text \<open>\<^verbatim>\<open>regionToDisplayMap\<close> of OutlierDetectionCard.\<close>

definition outlier_regionToDisplayMap :: "(string \<times> string) list" where
  "outlier_regionToDisplayMap =
     [(''coast'', ''Houston''), (''east'', ''Houston''),
      (''far_west'', ''West''),
      (''north'', ''North''), (''north_c'', ''North''),
      (''southern'', ''South''), (''south_c'', ''South''),
      (''west'', ''West''),
      (''ercot'', ''All'')]"

section \<open>DryVsRainyChart\<close>

record PrecipitationData =
  precip_zone :: string
  rainy_day :: bool
  avg_load_mw :: number
  num_days :: number

text \<open>The accumulator of a region; the two counters only ever count records.\<close>

record DryRainyTotals =
  dry :: number
  rainy :: number
  dryCount :: nat
  rainyCount :: nat

text \<open>\<^verbatim>\<open>ChartDataPoint\<close> of this chart: region, dry, rainy.\<close>

record DryRainyPoint =
  dr_region :: string
  dr_dry :: number
  dr_rainy :: number

definition dryVsRainy_regionData :: "(string \<times> DryRainyTotals) list" where
  "dryVsRainy_regionData =
     [(''North'', \<lparr>dry = Fin 0, rainy = Fin 0, dryCount = 0, rainyCount = 0\<rparr>),
      (''South'', \<lparr>dry = Fin 0, rainy = Fin 0, dryCount = 0, rainyCount = 0\<rparr>),
      (''West'', \<lparr>dry = Fin 0, rainy = Fin 0, dryCount = 0, rainyCount = 0\<rparr>),
      (''Houston'', \<lparr>dry = Fin 0, rainy = Fin 0, dryCount = 0, rainyCount = 0\<rparr>)]"

text \<open>An update in place of the value under a key that is there.\<close>

fun modify :: "'k \<Rightarrow> ('v \<Rightarrow> 'v) \<Rightarrow> ('k \<times> 'v) list \<Rightarrow> ('k \<times> 'v) list" where
  "modify k f [] = []"
| "modify k f ((k', v) # kvs) =
     (if k' = k then (k', f v) # kvs else (k', v) # modify k f kvs)"

definition add_load :: "PrecipitationData \<Rightarrow> DryRainyTotals \<Rightarrow> DryRainyTotals" where
  "add_load item v =
     (if rainy_day item
      then v\<lparr>rainy := js_add (rainy v) (avg_load_mw item), rainyCount := rainyCount v + 1\<rparr>
      else v\<lparr>dry := js_add (dry v) (avg_load_mw item), dryCount := dryCount v + 1\<rparr>)"

text \<open>
  V8's message for a member read on \<^verbatim>\<open>undefined\<close>, which is what
  \<^verbatim>\<open>regionData[displayRegion]\<close> is when the table lookup gave an inherited member.
\<close>

definition cannot_read :: "string \<Rightarrow> thrown" where
  "cannot_read field =
     Error (''Cannot read properties of undefined (reading '' @ [CHR 0x27] @ field
            @ [CHR 0x27] @ '')'')"

definition dryVsRainy_step ::
  "(string \<times> DryRainyTotals) list \<Rightarrow> PrecipitationData
     \<Rightarrow> thrown + (string \<times> DryRainyTotals) list" where
  "dryVsRainy_step regionData item =
     (let displayRegion = get_prop dryVsRainy_zoneToRegionMap (precip_zone item) in
      if truthy displayRegion then
        (case map_of regionData (to_string displayRegion) of
           None \<Rightarrow> Inl (cannot_read (if rainy_day item then ''rainy'' else ''dry''))
         | Some v \<Rightarrow> Inr (modify (to_string displayRegion) (add_load item) regionData))
      else Inr regionData)"

fun dryVsRainy_forEach ::
  "(string \<times> DryRainyTotals) list \<Rightarrow> PrecipitationData list
     \<Rightarrow> thrown + (string \<times> DryRainyTotals) list" where
  "dryVsRainy_forEach regionData [] = Inr regionData"
| "dryVsRainy_forEach regionData (item # items) =
     (case dryVsRainy_step regionData item of
        Inl e \<Rightarrow> Inl e
      | Inr regionData' \<Rightarrow> dryVsRainy_forEach regionData' items)"

definition dryVsRainy_point :: "string \<times> DryRainyTotals \<Rightarrow> DryRainyPoint" where
  "dryVsRainy_point entry =
     (case entry of (region, values) \<Rightarrow>
        \<lparr>dr_region = region,
         dr_dry = (if 0 < dryCount values
                   then js_div (dry values) (Fin (real (dryCount values))) else Fin 0),
         dr_rainy = (if 0 < rainyCount values
                     then js_div (rainy values) (Fin (real (rainyCount values))) else Fin 0)\<rparr>)"

definition dryVsRainy_aggregate :: "PrecipitationData list \<Rightarrow> thrown + DryRainyPoint list" where
  "dryVsRainy_aggregate apiData =
     (case dryVsRainy_forEach dryVsRainy_regionData apiData of
        Inl e \<Rightarrow> Inl e
      | Inr regionData \<Rightarrow> Inr (map dryVsRainy_point regionData))"

section \<open>HeatwavesByZoneChart\<close>

record HeatwaveData =
  hw_zone :: string
  streak_start :: string
  streak_end :: string
  streak_days :: number
  avg_peak_load_mw :: "number option"

text \<open>\<^verbatim>\<open>ChartDataPoint\<close> of this chart: zone, heatwaves.\<close>

record HeatwavePoint =
  hp_zone :: string
  heatwaves :: number

definition heatwaves_zoneCount :: "(string \<times> number) list" where
  "heatwaves_zoneCount =
     [(''North'', Fin 0), (''South'', Fin 0), (''West'', Fin 0), (''Houston'', Fin 0)]"

text \<open>
  \<^verbatim>\<open>zoneCount[key]++\<close>: a key that is not there reads as \<^verbatim>\<open>undefined\<close>, whose
  increment is NaN, stored under the key as a new last entry.
\<close>

definition increment :: "string \<Rightarrow> (string \<times> number) list \<Rightarrow> (string \<times> number) list" where
  "increment key zoneCount =
     (case map_of zoneCount key of
        None \<Rightarrow> zoneCount @ [(key, NaN)]
      | Some c \<Rightarrow> modify key (\<lambda>c. js_add c (Fin 1)) zoneCount)"

definition heatwaves_step :: "(string \<times> number) list \<Rightarrow> HeatwaveData \<Rightarrow> (string \<times> number) list" where
  "heatwaves_step zoneCount heatwave =
     (let displayZone = get_prop heatwaves_zoneToDisplayMap (hw_zone heatwave) in
      if truthy displayZone then increment (to_string displayZone) zoneCount else zoneCount)"

definition heatwaves_aggregate :: "HeatwaveData list \<Rightarrow> HeatwavePoint list" where
  "heatwaves_aggregate apiData =
     map (\<lambda>(zone, count). \<lparr>hp_zone = zone, heatwaves = count\<rparr>)
       (foldl heatwaves_step heatwaves_zoneCount apiData)"

section \<open>ExtremeHeatLoadTable\<close>

record ExtremeHeatData =
  eh_zone :: string
  median_peak_load_mw :: number
  num_extreme_heat_days :: number
  threshold_percentile :: number
  threshold_temp_f :: number

text \<open>The value the \<^verbatim>\<open>Map\<close> holds for a region.\<close>

record RegionLists =
  loads :: "number list"
  days :: "number list"
  temps :: "number list"

text \<open>
  \<^verbatim>\<open>RegionData\<close>: region, median_peak_load_mw, num_extreme_heat_days,
  avg_threshold_temp_f. The region is what the table lookup gave.
\<close>

record RegionData =
  rd_region :: jsval
  rd_median_peak_load_mw :: number
  rd_num_extreme_heat_days :: number
  avg_threshold_temp_f :: number

text \<open>
  The \<^verbatim>\<open>Map\<close> keeps its entries in the order of their first insertion, and its keys
  are values, not their strings.
\<close>

definition extremeHeat_step ::
  "(jsval \<times> RegionLists) list \<Rightarrow> ExtremeHeatData \<Rightarrow> (jsval \<times> RegionLists) list" where
  "extremeHeat_step regionMap item =
     (let region = get_prop extremeHeat_zoneToRegionMap (eh_zone item) in
      if truthy region then
        modify region
          (\<lambda>regionData.
             \<lparr>loads = loads regionData @ [median_peak_load_mw item],
              days = days regionData @ [num_extreme_heat_days item],
              temps = temps regionData @ [threshold_temp_f item]\<rparr>)
          (if map_of regionMap region = None
           then regionMap @ [(region, \<lparr>loads = [], days = [], temps = []\<rparr>)]
           else regionMap)
      else regionMap)"

definition extremeHeat_regionMap :: "ExtremeHeatData list \<Rightarrow> (jsval \<times> RegionLists) list" where
  "extremeHeat_regionMap apiData = foldl extremeHeat_step [] apiData"

definition extremeHeat_row :: "jsval \<times> RegionLists \<Rightarrow> RegionData" where
  "extremeHeat_row entry =
     (case entry of (region, d) \<Rightarrow>
        \<lparr>rd_region = region,
         rd_median_peak_load_mw = js_sum (loads d),
         rd_num_extreme_heat_days =
           js_round (js_div (js_sum (days d)) (Fin (real (length (days d))))),
         avg_threshold_temp_f = js_div (js_sum (temps d)) (Fin (real (length (temps d))))\<rparr>)"

text \<open>
  \<^verbatim>\<open>a.region.localeCompare(b.region)\<close> is negative when this holds. The strings
  compared are display names of the table, on which every collation is the order of
  the code units.
\<close>

fun str_less :: "string \<Rightarrow> string \<Rightarrow> bool" where
  "str_less [] [] = False"
| "str_less [] (d # t) = True"
| "str_less (c # s) [] = False"
| "str_less (c # s) (d # t) = ((of_char c :: nat) < of_char d \<or> (c = d \<and> str_less s t))"

fun insert_row :: "RegionData \<Rightarrow> RegionData list \<Rightarrow> RegionData list" where
  "insert_row a [] = [a]"
| "insert_row a (b # bs) =
     (if str_less (to_string (rd_region a)) (to_string (rd_region b))
      then a # b # bs else b # insert_row a bs)"

fun is_obj :: "jsval \<Rightarrow> bool" where
  "is_obj (Obj k) = True"
| "is_obj v = False"

text \<open>
  \<^verbatim>\<open>regionData.sort((a, b) => a.region.localeCompare(b.region))\<close>: a stable sort.
  The comparator throws when \<^verbatim>\<open>a.region\<close> is no string. Which rows an engine
  passes as \<^verbatim>\<open>a\<close> is its own choice: V8, followed here, passes every row but the
  first, and under two rows it calls nothing.
\<close>

definition sort_rows :: "RegionData list \<Rightarrow> thrown + RegionData list" where
  "sort_rows rows =
     (if list_ex (\<lambda>a. is_obj (rd_region a)) (tl rows)
      then Inl (Error ''a.region.localeCompare is not a function'')
      else Inr (foldl (\<lambda>sorted a. insert_row a sorted) [] rows))"

definition extremeHeat_aggregate :: "ExtremeHeatData list \<Rightarrow> thrown + RegionData list" where
  "extremeHeat_aggregate apiData =
     sort_rows (map extremeHeat_row (extremeHeat_regionMap apiData))"

section \<open>MetricsCard\<close>

record ForecastMetrics =
  fm_region :: string
  fm_n :: number
  fm_mse :: number
  fm_mae :: number
  fm_mape_pct :: number
  fm_r2 :: number

record MetricGroup =
  totalN :: number
  weightedMse :: number
  weightedMae :: number
  weightedMape :: number
  weightedR2 :: number

text \<open>\<^verbatim>\<open>DisplayMetrics\<close>: region, mape, r2, mse, mae.\<close>

record DisplayMetrics =
  dm_region :: string
  dm_mape :: number
  dm_r2 :: number
  dm_mse :: number
  dm_mae :: number

text \<open>
  The key of \<^verbatim>\<open>regionGroups\<close> a record goes under:
  \<^verbatim>\<open>regionToDisplayMap[metric.region] || metric.region\<close>, as a property key.
\<close>

definition metrics_displayRegion :: "ForecastMetrics \<Rightarrow> string" where
  "metrics_displayRegion metric =
     to_string (or_else (get_prop metrics_regionToDisplayMap (fm_region metric))
                  (fm_region metric))"

definition metrics_add :: "MetricGroup \<Rightarrow> ForecastMetrics \<Rightarrow> MetricGroup" where
  "metrics_add grp metric =
     \<lparr>totalN = js_add (totalN grp) (fm_n metric),
      weightedMse = js_add (weightedMse grp) (js_mul (fm_mse metric) (fm_n metric)),
      weightedMae = js_add (weightedMae grp) (js_mul (fm_mae metric) (fm_n metric)),
      weightedMape = js_add (weightedMape grp) (js_mul (fm_mape_pct metric) (fm_n metric)),
      weightedR2 = js_add (weightedR2 grp) (js_mul (fm_r2 metric) (fm_n metric))\<rparr>"

definition empty_group :: MetricGroup where
  "empty_group =
     \<lparr>totalN = Fin 0, weightedMse = Fin 0, weightedMae = Fin 0, weightedMape = Fin 0,
      weightedR2 = Fin 0\<rparr>"

text \<open>
  \<^verbatim>\<open>regionGroups\<close> is a map from keys to groups: the order in which
  \<^verbatim>\<open>Object.entries\<close> lists the groups is left out of the model.
\<close>

definition metrics_step ::
  "(string \<rightharpoonup> MetricGroup) \<Rightarrow> ForecastMetrics \<Rightarrow> (string \<rightharpoonup> MetricGroup)" where
  "metrics_step regionGroups metric =
     (let displayRegion = metrics_displayRegion metric;
          grp = (case regionGroups displayRegion of None \<Rightarrow> empty_group | Some g \<Rightarrow> g)
      in regionGroups(displayRegion \<mapsto> metrics_add grp metric))"

definition metrics_regionGroups :: "ForecastMetrics list \<Rightarrow> (string \<rightharpoonup> MetricGroup)" where
  "metrics_regionGroups apiData = foldl metrics_step Map.empty apiData"

definition metrics_display :: "string \<Rightarrow> MetricGroup \<Rightarrow> DisplayMetrics" where
  "metrics_display region grp =
     \<lparr>dm_region = region,
      dm_mape = (if js_gt (totalN grp) (Fin 0)
                 then js_div (weightedMape grp) (totalN grp) else Fin 0),
      dm_r2 = (if js_gt (totalN grp) (Fin 0)
               then js_div (weightedR2 grp) (totalN grp) else Fin 0),
      dm_mse = (if js_gt (totalN grp) (Fin 0)
                then js_div (weightedMse grp) (totalN grp) else Fin 0),
      dm_mae = (if js_gt (totalN grp) (Fin 0)
                then js_div (weightedMae grp) (totalN grp) else Fin 0)\<rparr>"

text \<open>The row of \<^verbatim>\<open>displayData\<close> for a region key, if there is one.\<close>

definition metricsCard_aggregate :: "ForecastMetrics list \<Rightarrow> (string \<rightharpoonup> DisplayMetrics)" where
  "metricsCard_aggregate apiData region =
     map_option (metrics_display region) (metrics_regionGroups apiData region)"

section \<open>OutlierDetectionCard\<close>

datatype outlier_kind = High | Low

record LoadOutlier =
  lo_hour_end :: string
  lo_region :: string
  load_mw :: number
  lo_mean :: number
  std_dev :: number
  z_score :: number
  outlier_type :: outlier_kind

text \<open>The response of this endpoint wraps the array: \<^verbatim>\<open>result.data\<close>.\<close>

record OutlierResult =
  result_data :: "LoadOutlier list"

text \<open>\<^verbatim>\<open>ScatterDataPoint\<close>: time, residual, region.\<close>

record ScatterDataPoint =
  sp_time :: string
  residual :: number
  sp_region :: jsval

record Thresholds =
  upper :: number
  lower :: number

definition STD_DEV_THRESHOLD :: number where
  "STD_DEV_THRESHOLD = Fin 3"

text \<open>
  \<open>toLocale\<close> stands for \<^verbatim>\<open>new Date(s).toLocaleString("en-US", ...)\<close>, the
  engine's rendering of a time stamp.
\<close>

definition outlier_scatterData ::
  "(string \<Rightarrow> string) \<Rightarrow> LoadOutlier list \<Rightarrow> ScatterDataPoint list" where
  "outlier_scatterData toLocale apiData =
     map (\<lambda>outlier.
            \<lparr>sp_time = toLocale (lo_hour_end outlier),
             residual = js_sub (load_mw outlier) (lo_mean outlier),
             sp_region = or_else (get_prop outlier_regionToDisplayMap (lo_region outlier))
                           (lo_region outlier)\<rparr>)
       apiData"

definition outlier_thresholds :: "Thresholds \<Rightarrow> LoadOutlier list \<Rightarrow> Thresholds" where
  "outlier_thresholds old apiData =
     (case apiData of
        [] \<Rightarrow> old
      | first # rest \<Rightarrow>
          \<lparr>upper = js_mul STD_DEV_THRESHOLD (std_dev first),
           lower = js_mul (js_neg STD_DEV_THRESHOLD) (std_dev first)\<rparr>)"

definition residualsFiltered :: "string \<Rightarrow> ScatterDataPoint list \<Rightarrow> ScatterDataPoint list" where
  "residualsFiltered outlierRegion points =
     (if outlierRegion = ''All'' then points
      else filter (\<lambda>r. sp_region r = Str outlierRegion) points)"

section \<open>LoadByRegionChart\<close>

record HourlyLoadData =
  hour_end :: string
  north :: number
  southern :: number
  south_c :: number
  west :: number
  north_c :: number
  coast :: number
  east :: number
  far_west :: number

text \<open>\<^verbatim>\<open>ChartDataPoint\<close> of this chart.\<close>

record HourlyPoint =
  hour :: string
  North :: number
  South :: number
  West :: number
  Houston :: number

definition MAX_CHART_POINTS :: nat where
  "MAX_CHART_POINTS = 100"

text \<open>
  \<^verbatim>\<open>sampleData\<close>. An element of the result is \<open>None\<close> where the source would
  push \<^verbatim>\<open>data[index]\<close> for an index outside the array. The point count is a
  natural number. The step and the products \<open>i * step\<close> are exact here; in doubles a
  product can round to just under a whole number, and the index is then one less.
\<close>

definition sampleData :: "'a list \<Rightarrow> nat \<Rightarrow> 'a option list" where
  "sampleData data maxPoints =
     (if length data \<le> maxPoints then map Some data
      else
        (let step = real (length data) / real maxPoints in
         map (\<lambda>i. let index = nat \<lfloor>real i * step\<rfloor>
                  in if index < length data then Some (data ! index) else None)
           [0..<maxPoints]))"

definition hourly_point :: "(string \<Rightarrow> string) \<Rightarrow> HourlyLoadData \<Rightarrow> HourlyPoint" where
  "hourly_point toLocale item =
     \<lparr>hour = toLocale (hour_end item),
      North = js_add (or_zero (north item)) (or_zero (north_c item)),
      South = js_add (or_zero (southern item)) (or_zero (south_c item)),
      West = js_add (or_zero (west item)) (or_zero (far_west item)),
      Houston = js_add (or_zero (coast item)) (or_zero (east item))\<rparr>"

definition loadByRegion_chartData ::
  "(string \<Rightarrow> string) \<Rightarrow> HourlyLoadData list \<Rightarrow> HourlyPoint option list" where
  "loadByRegion_chartData toLocale apiData =
     sampleData (map (hourly_point toLocale) apiData) MAX_CHART_POINTS"

section \<open>HistoricalForecastCard\<close>

text \<open>A field that the response leaves out is \<open>None\<close>.\<close>

record LoadComparison =
  lc_hour_end :: string
  coast_actual :: "number option"
  coast_expected :: "number option"
  east_actual :: "number option"
  east_expected :: "number option"
  far_west_actual :: "number option"
  far_west_expected :: "number option"
  north_actual :: "number option"
  north_expected :: "number option"
  north_c_actual :: "number option"
  north_c_expected :: "number option"
  southern_actual :: "number option"
  southern_expected :: "number option"
  south_c_actual :: "number option"
  south_c_expected :: "number option"
  west_actual :: "number option"
  west_expected :: "number option"
  ercot_actual :: "number option"
  ercot_expected :: "number option"

text \<open>\<^verbatim>\<open>ChartDataPoint\<close> of this card: time, historical, forecast.\<close>

record ForecastPoint =
  fp_time :: string
  historical :: number
  forecast :: number

text \<open>\<^verbatim>\<open>Record<Region, ChartDataPoint[]>\<close>.\<close>

record RegionSeries =
  for_All :: "ForecastPoint list"
  for_North :: "ForecastPoint list"
  for_South :: "ForecastPoint list"
  for_West :: "ForecastPoint list"
  for_Houston :: "ForecastPoint list"

record DateLabels =
  label_start :: string
  label_end :: string

fun opt_or_zero :: "number option \<Rightarrow> number" where
  "opt_or_zero None = Fin 0"
| "opt_or_zero (Some x) = or_zero x"

definition pair_point ::
  "string \<Rightarrow> number option \<Rightarrow> number option \<Rightarrow> number option \<Rightarrow> number option
     \<Rightarrow> ForecastPoint" where
  "pair_point time a1 e1 a2 e2 =
     \<lparr>fp_time = time,
      historical = js_add (opt_or_zero a1) (opt_or_zero a2),
      forecast = js_add (opt_or_zero e1) (opt_or_zero e2)\<rparr>"

definition historical_step ::
  "(string \<Rightarrow> string) \<Rightarrow> RegionSeries \<Rightarrow> LoadComparison \<Rightarrow> RegionSeries" where
  "historical_step toLocale regionData item =
     (let time = toLocale (lc_hour_end item);
          d0 = (if ercot_actual item \<noteq> None \<and> ercot_expected item \<noteq> None
                then regionData\<lparr>for_All := for_All regionData
                       @ [\<lparr>fp_time = time, historical = opt_or_zero (ercot_actual item),
                           forecast = opt_or_zero (ercot_expected item)\<rparr>]\<rparr>
                else regionData);
          d1 = (if north_actual item \<noteq> None \<and> north_expected item \<noteq> None
                   \<and> north_c_actual item \<noteq> None \<and> north_c_expected item \<noteq> None
                then d0\<lparr>for_North := for_North d0
                       @ [pair_point time (north_actual item) (north_expected item)
                            (north_c_actual item) (north_c_expected item)]\<rparr>
                else d0);
          d2 = (if southern_actual item \<noteq> None \<and> southern_expected item \<noteq> None
                   \<and> south_c_actual item \<noteq> None \<and> south_c_expected item \<noteq> None
                then d1\<lparr>for_South := for_South d1
                       @ [pair_point time (southern_actual item) (southern_expected item)
                            (south_c_actual item) (south_c_expected item)]\<rparr>
                else d1);
          d3 = (if west_actual item \<noteq> None \<and> west_expected item \<noteq> None
                   \<and> far_west_actual item \<noteq> None \<and> far_west_expected item \<noteq> None
                then d2\<lparr>for_West := for_West d2
                       @ [pair_point time (west_actual item) (west_expected item)
                            (far_west_actual item) (far_west_expected item)]\<rparr>
                else d2)
      in if coast_actual item \<noteq> None \<and> coast_expected item \<noteq> None
            \<and> east_actual item \<noteq> None \<and> east_expected item \<noteq> None
         then d3\<lparr>for_Houston := for_Houston d3
                @ [pair_point time (coast_actual item) (coast_expected item)
                     (east_actual item) (east_expected item)]\<rparr>
         else d3)"

definition historical_regionData ::
  "(string \<Rightarrow> string) \<Rightarrow> LoadComparison list \<Rightarrow> RegionSeries" where
  "historical_regionData toLocale apiData =
     foldl (historical_step toLocale)
       \<lparr>for_All = [], for_North = [], for_South = [], for_West = [], for_Houston = []\<rparr>
       apiData"

text \<open>\<open>toLocaleDate\<close> stands for \<^verbatim>\<open>new Date(s).toLocaleDateString("en-US", ...)\<close>.\<close>

definition historical_dateLabels ::
  "(string \<Rightarrow> string) \<Rightarrow> DateLabels \<Rightarrow> LoadComparison list \<Rightarrow> DateLabels" where
  "historical_dateLabels toLocaleDate old apiData =
     (case apiData of
        [] \<Rightarrow> old
      | first # rest \<Rightarrow>
          \<lparr>label_start = toLocaleDate (lc_hour_end first),
           label_end = toLocaleDate (lc_hour_end (last apiData))\<rparr>)"

section \<open>Queries\<close>

text \<open>
  \<^verbatim>\<open>URLSearchParams\<close>: a list of name and value pairs. Its \<^verbatim>\<open>toString\<close> is the
  form-urlencoded serializer: letters, digits and \<^verbatim>\<open>* - . _\<close> stay, a space
  becomes \<^verbatim>\<open>+\<close>, every other byte becomes \<^verbatim>\<open>%\<close> and two hexadecimal digits.
\<close>

definition unreserved :: "char \<Rightarrow> bool" where
  "unreserved c =
     (c \<in> set ''ABCDEFGHIJKLMNOPQRSTUVWXYZabcdefghijklmnopqrstuvwxyz0123456789*-._'')"

definition hex_digit :: "nat \<Rightarrow> char" where
  "hex_digit d = ''0123456789ABCDEF'' ! (d mod 16)"

definition urlencode_char :: "char \<Rightarrow> string" where
  "urlencode_char c =
     (if unreserved c then [c]
      else if c = CHR '' '' then ''+''
      else [CHR ''%'', hex_digit (of_char c div 16), hex_digit (of_char c mod 16)])"

definition urlencode :: "string \<Rightarrow> string" where
  "urlencode s = concat (map urlencode_char s)"

fun params_toString :: "(string \<times> string) list \<Rightarrow> string" where
  "params_toString [] = []"
| "params_toString [(k, v)] = urlencode k @ ''='' @ urlencode v"
| "params_toString ((k, v) # p # ps) =
     urlencode k @ ''='' @ urlencode v @ ''&'' @ params_toString (p # ps)"

text \<open>
  \<^verbatim>\<open>process.env.NEXT_PUBLIC_API_URL || "http://localhost:8000"\<close>; the argument is
  the environment's value, if it has one.
\<close>

definition API_BASE_URL :: "string option \<Rightarrow> string" where
  "API_BASE_URL env =
     (case env of
        None \<Rightarrow> ''http://localhost:8000''
      | Some u \<Rightarrow> if u = [] then ''http://localhost:8000'' else u)"

text \<open>The two \<^verbatim>\<open>if (dateRange.startDate)\<close>, \<^verbatim>\<open>if (dateRange.endDate)\<close> appends, with the dates as they are.\<close>

definition append_dates :: "DateRange \<Rightarrow> (string \<times> string) list \<Rightarrow> (string \<times> string) list" where
  "append_dates dr params =
     (let params1 = (if startDate dr \<noteq> [] then params @ [(''start_date'', startDate dr)]
                     else params)
      in if endDate dr \<noteq> [] then params1 @ [(''end_date'', endDate dr)] else params1)"

text \<open>The same appends, with the dates made time stamps of the day's two ends.\<close>

definition append_timestamps ::
  "DateRange \<Rightarrow> (string \<times> string) list \<Rightarrow> (string \<times> string) list" where
  "append_timestamps dr params =
     (let params1 = (if startDate dr \<noteq> []
                     then params @ [(''start_date'', startDate dr @ ''T00:00:00'')]
                     else params)
      in if endDate dr \<noteq> [] then params1 @ [(''end_date'', endDate dr @ ''T23:59:59'')]
         else params1)"

definition loadByRegion_params :: "DateRange \<Rightarrow> (string \<times> string) list" where
  "loadByRegion_params dr = append_timestamps dr []"

definition loadByRegion_url :: "string option \<Rightarrow> DateRange \<Rightarrow> string" where
  "loadByRegion_url env dr =
     API_BASE_URL env @ ''/load/hourly?'' @ params_toString (loadByRegion_params dr)"

definition dryVsRainy_url :: "string option \<Rightarrow> DateRange \<Rightarrow> string" where
  "dryVsRainy_url env dr =
     API_BASE_URL env @ ''/weather/precipitation?'' @ params_toString (append_dates dr [])"

definition heatwaves_url :: "string option \<Rightarrow> DateRange \<Rightarrow> string" where
  "heatwaves_url env dr =
     API_BASE_URL env @ ''/weather/heatwaves?''
       @ params_toString (append_dates dr [(''min_temp_f'', ''100''), (''min_days'', ''3'')])"

definition extremeHeat_url :: "DateRange \<Rightarrow> string" where
  "extremeHeat_url dr =
     ''http://localhost:8000/load/peak-load-extreme-heat?''
       @ params_toString (append_dates dr [])"

definition modelParam :: "string \<Rightarrow> string" where
  "modelParam selectedModel =
     (if selectedModel = ''Statistical Model'' then ''statistical''
      else if selectedModel = ''XGBoost'' then ''xgb'' else ''statistical'')"

definition metrics_url :: "string option \<Rightarrow> DateRange \<Rightarrow> string \<Rightarrow> string" where
  "metrics_url env dr selectedModel =
     API_BASE_URL env @ ''/forecast/metrics?''
       @ params_toString (append_timestamps dr [] @ [(''model'', modelParam selectedModel)])"

definition outlier_url :: "string option \<Rightarrow> DateRange \<Rightarrow> string" where
  "outlier_url env dr =
     API_BASE_URL env @ ''/load/outliers?''
       @ params_toString
           (append_timestamps dr [(''std_dev_threshold'', ''3''), (''limit'', ''1000'')])"

definition historical_url :: "string option \<Rightarrow> DateRange \<Rightarrow> string \<Rightarrow> string" where
  "historical_url env dr selectedModel =
     API_BASE_URL env @ ''/load/comparison?''
       @ params_toString (append_timestamps dr [] @ [(''model'', modelParam selectedModel)])"

section \<open>Fetching\<close>

text \<open>
  What \<^verbatim>\<open>await fetch(url)\<close> gives: a rejection, or a response with its status, its
  status text and what \<^verbatim>\<open>await response.json()\<close> gives. The network is a function
  from the URL.
\<close>

record 'b response =
  status :: nat
  statusText :: string
  json :: "thrown + 'b"

datatype 'b fetched = Rejected thrown | Resolved "'b response"

definition ok :: "'b response \<Rightarrow> bool" where
  "ok response = (200 \<le> status response \<and> status response \<le> 299)"

text \<open>A status in a template string: its decimal digits.\<close>

fun show_nat :: "nat \<Rightarrow> string" where
  "show_nat k =
     (if k < 10 then [''0123456789'' ! k]
      else show_nat (k div 10) @ [''0123456789'' ! (k mod 10)])"

declare show_nat.simps [simp del]

definition api_error :: "'b response \<Rightarrow> thrown" where
  "api_error response = Error (''API error: '' @ show_nat (status response))"

definition failed_to_fetch :: "'b response \<Rightarrow> thrown" where
  "failed_to_fetch response = Error (''Failed to fetch data: '' @ statusText response)"

text \<open>From the \<^verbatim>\<open>fetch\<close> to the parsed body, with the throw on a response that is not ok.\<close>

definition receive :: "('b response \<Rightarrow> thrown) \<Rightarrow> 'b fetched \<Rightarrow> thrown + 'b" where
  "receive not_ok res =
     (case res of
        Rejected e \<Rightarrow> Inl e
      | Resolved response \<Rightarrow> if \<not> ok response then Inl (not_ok response) else json response)"

text \<open>The three \<^verbatim>\<open>useState\<close> of a view.\<close>

record 'd view_state =
  data :: 'd
  loading :: bool
  error :: "string option"

text \<open>\<^verbatim>\<open>err instanceof Error ? err.message : fallback\<close>.\<close>

definition message_or :: "string \<Rightarrow> thrown \<Rightarrow> string" where
  "message_or fallback err = (case err of Error m \<Rightarrow> m | NonError \<Rightarrow> fallback)"

text \<open>
  The end of a \<^verbatim>\<open>fetchData\<close>: the result is stored, or the \<^verbatim>\<open>catch\<close> stores the
  message; \<^verbatim>\<open>finally\<close> clears the loading flag.
\<close>

definition settle ::
  "string \<Rightarrow> thrown + 'b
     \<Rightarrow> ('b \<Rightarrow> ('d, 'm) view_state_scheme \<Rightarrow> ('d, 'm) view_state_scheme)
     \<Rightarrow> ('d, 'm) view_state_scheme \<Rightarrow> ('d, 'm) view_state_scheme" where
  "settle fallback attempt store s =
     (case attempt of
        Inr b \<Rightarrow> store b s
      | Inl err \<Rightarrow> s\<lparr>error := Some (message_or fallback err)\<rparr>)\<lparr>loading := False\<rparr>"

text \<open>The start of a \<^verbatim>\<open>fetchData\<close>: \<^verbatim>\<open>setLoading(true); setError(null)\<close>.\<close>

definition begin_fetch :: "('d, 'm) view_state_scheme \<Rightarrow> ('d, 'm) view_state_scheme" where
  "begin_fetch s = s\<lparr>loading := True, error := None\<rparr>"

definition then_do :: "thrown + 'a \<Rightarrow> ('a \<Rightarrow> thrown + 'b) \<Rightarrow> thrown + 'b" where
  "then_do attempt f = (case attempt of Inl e \<Rightarrow> Inl e | Inr a \<Rightarrow> f a)"

definition loadByRegion_fetchData ::
  "(string \<Rightarrow> HourlyLoadData list fetched) \<Rightarrow> (string \<Rightarrow> string) \<Rightarrow> string option
     \<Rightarrow> DateRange \<Rightarrow> HourlyPoint option list view_state
     \<Rightarrow> HourlyPoint option list view_state" where
  "loadByRegion_fetchData fetch toLocale env dr s =
     settle ''Failed to load data''
       (then_do (receive api_error (fetch (loadByRegion_url env dr)))
          (\<lambda>apiData. Inr (loadByRegion_chartData toLocale apiData)))
       (\<lambda>sampledData s. s\<lparr>data := sampledData\<rparr>)
       (begin_fetch s)"

definition dryVsRainy_fetchData ::
  "(string \<Rightarrow> PrecipitationData list fetched) \<Rightarrow> string option \<Rightarrow> DateRange
     \<Rightarrow> DryRainyPoint list view_state \<Rightarrow> DryRainyPoint list view_state" where
  "dryVsRainy_fetchData fetch env dr s =
     settle ''Failed to load data''
       (then_do (receive api_error (fetch (dryVsRainy_url env dr))) dryVsRainy_aggregate)
       (\<lambda>chartData s. s\<lparr>data := chartData\<rparr>)
       (begin_fetch s)"

definition heatwaves_fetchData ::
  "(string \<Rightarrow> HeatwaveData list fetched) \<Rightarrow> string option \<Rightarrow> DateRange
     \<Rightarrow> HeatwavePoint list view_state \<Rightarrow> HeatwavePoint list view_state" where
  "heatwaves_fetchData fetch env dr s =
     settle ''Failed to load data''
       (then_do (receive api_error (fetch (heatwaves_url env dr)))
          (\<lambda>apiData. Inr (heatwaves_aggregate apiData)))
       (\<lambda>chartData s. s\<lparr>data := chartData\<rparr>)
       (begin_fetch s)"

definition extremeHeat_fetchData ::
  "(string \<Rightarrow> ExtremeHeatData list fetched) \<Rightarrow> DateRange
     \<Rightarrow> RegionData list view_state \<Rightarrow> RegionData list view_state" where
  "extremeHeat_fetchData fetch dr s =
     settle ''An error occurred''
       (then_do (receive failed_to_fetch (fetch (extremeHeat_url dr))) extremeHeat_aggregate)
       (\<lambda>regionData s. s\<lparr>data := regionData\<rparr>)
       (begin_fetch s)"

definition metrics_fetchData ::
  "(string \<Rightarrow> ForecastMetrics list fetched) \<Rightarrow> string option \<Rightarrow> DateRange \<Rightarrow> string
     \<Rightarrow> (string \<rightharpoonup> DisplayMetrics) view_state \<Rightarrow> (string \<rightharpoonup> DisplayMetrics) view_state" where
  "metrics_fetchData fetch env dr selectedModel s =
     settle ''Failed to load data''
       (then_do (receive api_error (fetch (metrics_url env dr selectedModel)))
          (\<lambda>apiData. Inr (metricsCard_aggregate apiData)))
       (\<lambda>displayData s. s\<lparr>data := displayData\<rparr>)
       (begin_fetch s)"

record 'd outlier_state = "'d view_state" +
  thresholds :: Thresholds

definition outlier_fetchData ::
  "(string \<Rightarrow> OutlierResult fetched) \<Rightarrow> (string \<Rightarrow> string) \<Rightarrow> string option \<Rightarrow> DateRange
     \<Rightarrow> ScatterDataPoint list outlier_state \<Rightarrow> ScatterDataPoint list outlier_state" where
  "outlier_fetchData fetch toLocale env dr s =
     settle ''Failed to load data''
       (receive api_error (fetch (outlier_url env dr)))
       (\<lambda>result s.
          s\<lparr>data := outlier_scatterData toLocale (result_data result),
            thresholds := outlier_thresholds (thresholds s) (result_data result)\<rparr>)
       (begin_fetch s)"

record 'd historical_state = "'d view_state" +
  dateLabels :: DateLabels

definition historical_fetchData ::
  "(string \<Rightarrow> LoadComparison list fetched) \<Rightarrow> (string \<Rightarrow> string) \<Rightarrow> (string \<Rightarrow> string)
     \<Rightarrow> string option \<Rightarrow> DateRange \<Rightarrow> string
     \<Rightarrow> RegionSeries historical_state \<Rightarrow> RegionSeries historical_state" where
  "historical_fetchData fetch toLocale toLocaleDate env dr selectedModel s =
     settle ''Failed to load data''
       (receive api_error (fetch (historical_url env dr selectedModel)))
       (\<lambda>apiData s.
          s\<lparr>dateLabels := historical_dateLabels toLocaleDate (dateLabels s) apiData,
            data := historical_regionData toLocale apiData\<rparr>)
       (begin_fetch s)"

text \<open>Whether a text has a pattern somewhere in it, as \<^verbatim>\<open>text.includes(pattern)\<close>.\<close>

fun starts_with :: "string \<Rightarrow> string \<Rightarrow> bool" where
  "starts_with [] txt = True"
| "starts_with (p # ps) [] = False"
| "starts_with (p # ps) (c # cs) = (p = c \<and> starts_with ps cs)"

fun str_includes :: "string \<Rightarrow> string \<Rightarrow> bool" where
  "str_includes pat [] = (pat = [])"
| "str_includes pat (c # cs) = (starts_with pat (c # cs) \<or> str_includes pat cs)"

section \<open>Two networks\<close>

text \<open>A server that answers every request for the extreme-heat table with 404.\<close>

definition not_found :: "string \<Rightarrow> ExtremeHeatData list fetched" where
  "not_found url = Resolved \<lparr>status = 404, statusText = ''Not Found'', json = Inr []\<rparr>"

text \<open>A server that answers every request for the precipitation data with 500.\<close>

definition server_error :: "string \<Rightarrow> PrecipitationData list fetched" where
  "server_error url =
     Resolved \<lparr>status = 500, statusText = ''Internal Server Error'', json = Inr []\<rparr>"

text \<open>A view that is loading and has shown nothing yet.\<close>

definition loading_view :: "'a list view_state" where
  "loading_view = \<lparr>data = [], loading = True, error = None\<rparr>"

section \<open>Notions the properties are stated with\<close>

text \<open>
  The simple mean, in the specification's words: the sum divided by the count, and 0
  when the count is 0.
\<close>

definition spec_simple_mean :: "number list \<Rightarrow> number" where
  "spec_simple_mean xs =
     (if 0 < length xs then js_div (js_sum xs) (Fin (real (length xs))) else Fin 0)"

text \<open>The records of a response that MetricsCard puts under a key.\<close>

definition metrics_records :: "string \<Rightarrow> ForecastMetrics list \<Rightarrow> ForecastMetrics list" where
  "metrics_records k apiData = filter (\<lambda>metric. metrics_displayRegion metric = k) apiData"



section \<open>The filter store\<close>

text \<open>
  C7: the store starts with the committed and the draft range both 2010-06-01..2011-01-01;
  writing the draft leaves the committed range as it was; committing makes the committed
  range the draft and leaves the draft as it was; and an operation that changes the
  committed range is the commit.
\<close>

theorem filter_store_commit:
  "dateRange DateFilterProvider = \<lparr>startDate = ''2010-06-01'', endDate = ''2011-01-01''\<rparr>
   \<and> tempDateRange DateFilterProvider = \<lparr>startDate = ''2010-06-01'', endDate = ''2011-01-01''\<rparr>
   \<and> dateRange (setTempDateRange r s) = dateRange s
   \<and> tempDateRange (setTempDateRange r s) = r
   \<and> dateRange (applyDateRange s) = tempDateRange s
   \<and> tempDateRange (applyDateRange s) = tempDateRange s
   \<and> (dateRange (run_op a s) \<noteq> dateRange s \<longrightarrow> a = ApplyDateRange)"
  by (cases a)
     (simp_all add: DateFilterProvider_def initialRange_def setTempDateRange_def
        applyDateRange_def)

theorem filter_store_commit_witness:
  "dateRange (run_op ApplyDateRange
      (setTempDateRange \<lparr>startDate = ''2010-07-01'', endDate = ''2010-08-01''\<rparr> DateFilterProvider))
     \<noteq> dateRange (setTempDateRange \<lparr>startDate = ''2010-07-01'', endDate = ''2010-08-01''\<rparr>
            DateFilterProvider)
   \<and> dateRange (setTempDateRange \<lparr>startDate = ''2010-07-01'', endDate = ''2010-08-01''\<rparr>
        DateFilterProvider) = initialRange
   \<and> dateRange (applyDateRange
        (setTempDateRange \<lparr>startDate = ''2010-07-01'', endDate = ''2010-08-01''\<rparr>
           DateFilterProvider))
       = \<lparr>startDate = ''2010-07-01'', endDate = ''2010-08-01''\<rparr>"
  using filter_store_commit
    [of "\<lparr>startDate = ''2010-07-01'', endDate = ''2010-08-01''\<rparr>" DateFilterProvider
        ApplyDateRange]
  by (simp add: DateFilterProvider_def initialRange_def setTempDateRange_def
        applyDateRange_def)

section \<open>The fixed chart\<close>

text \<open>
  C10: what ExtremeHeatLoadChart renders does not depend on its date range: for any two
  ranges it is the same five points, Day 1 to Day 5 with loads 3400, 3600, 3550, 3700
  and 3650, and the component requests nothing.
\<close>

theorem extreme_heat_chart_constant:
  "ExtremeHeatLoadChart r1 = ExtremeHeatLoadChart r2
   \<and> map day (series (ExtremeHeatLoadChart r1))
       = [''Day 1'', ''Day 2'', ''Day 3'', ''Day 4'', ''Day 5'']
   \<and> map load (series (ExtremeHeatLoadChart r1))
       = [Fin 3400, Fin 3600, Fin 3550, Fin 3700, Fin 3650]
   \<and> requests (ExtremeHeatLoadChart r1) = []"
  by (simp add: ExtremeHeatLoadChart_def chart_data_def)

section \<open>The zone tables compared\<close>

lemma tables_same:
  "map_of heatwaves_zoneToDisplayMap = map_of dryVsRainy_zoneToRegionMap"
  "map_of extremeHeat_zoneToRegionMap = map_of dryVsRainy_zoneToRegionMap"
  "map_of metrics_regionToDisplayMap = map_of dryVsRainy_zoneToRegionMap"
proof -
  show "map_of heatwaves_zoneToDisplayMap = map_of dryVsRainy_zoneToRegionMap"
    by (simp add: heatwaves_zoneToDisplayMap_def dryVsRainy_zoneToRegionMap_def)
  show "map_of extremeHeat_zoneToRegionMap = map_of dryVsRainy_zoneToRegionMap"
    by (simp add: extremeHeat_zoneToRegionMap_def dryVsRainy_zoneToRegionMap_def)
  show "map_of metrics_regionToDisplayMap = map_of dryVsRainy_zoneToRegionMap"
    by (rule ext) (simp add: metrics_regionToDisplayMap_def dryVsRainy_zoneToRegionMap_def)
qed

lemma outlier_table:
  "map_of outlier_regionToDisplayMap
     = (map_of dryVsRainy_zoneToRegionMap)(''ercot'' \<mapsto> ''All'')"
  by (rule ext) (simp add: outlier_regionToDisplayMap_def dryVsRainy_zoneToRegionMap_def)

text \<open>
  C4, as the code has it: the tables of DryVsRainyChart, HeatwavesByZoneChart,
  ExtremeHeatLoadTable and MetricsCard are the same function of the zone (the same
  keys, the same region for each key); the table of OutlierDetectionCard is that
  function with one more key, \<open>ercot\<close>, which it sends to \<open>All\<close> and which the
  other four do not have.
\<close>

theorem zone_tables_agree_but_ercot:
  "map_of heatwaves_zoneToDisplayMap = map_of dryVsRainy_zoneToRegionMap
   \<and> map_of extremeHeat_zoneToRegionMap = map_of dryVsRainy_zoneToRegionMap
   \<and> map_of metrics_regionToDisplayMap = map_of dryVsRainy_zoneToRegionMap
   \<and> map_of outlier_regionToDisplayMap
       = (map_of dryVsRainy_zoneToRegionMap)(''ercot'' \<mapsto> ''All'')
   \<and> map_of dryVsRainy_zoneToRegionMap ''ercot'' = None"
proof -
  have "map_of dryVsRainy_zoneToRegionMap ''ercot'' = None"
    by (simp add: dryVsRainy_zoneToRegionMap_def)
  then show ?thesis
    using tables_same outlier_table by simp
qed

text \<open>
  The tables do not all agree: \<open>ercot\<close> is a key of OutlierDetectionCard's table and
  of no other.
\<close>

theorem zone_tables_differ_at_ercot:
  "map_of outlier_regionToDisplayMap ''ercot'' = Some ''All''
   \<and> map_of dryVsRainy_zoneToRegionMap ''ercot'' = None
   \<and> map_of outlier_regionToDisplayMap \<noteq> map_of dryVsRainy_zoneToRegionMap"
proof -
  have a: "map_of outlier_regionToDisplayMap ''ercot'' = Some ''All''"
    by (simp add: outlier_regionToDisplayMap_def)
  have b: "map_of dryVsRainy_zoneToRegionMap ''ercot'' = None"
    by (simp add: dryVsRainy_zoneToRegionMap_def)
  from a b have "map_of outlier_regionToDisplayMap \<noteq> map_of dryVsRainy_zoneToRegionMap"
    by (metis option.distinct(1))
  with a b show ?thesis by simp
qed

section \<open>Empty input\<close>

text \<open>
  C1, as the code has it: on an empty record list DryVsRainyChart and
  HeatwavesByZoneChart give four rows, North, South, West and Houston in this order,
  with zero statistics; ExtremeHeatLoadTable gives no row, and so does the hourly
  series of LoadByRegionChart.
\<close>

theorem empty_input_rows:
  "dryVsRainy_aggregate [] =
     Inr [\<lparr>dr_region = ''North'', dr_dry = Fin 0, dr_rainy = Fin 0\<rparr>,
          \<lparr>dr_region = ''South'', dr_dry = Fin 0, dr_rainy = Fin 0\<rparr>,
          \<lparr>dr_region = ''West'', dr_dry = Fin 0, dr_rainy = Fin 0\<rparr>,
          \<lparr>dr_region = ''Houston'', dr_dry = Fin 0, dr_rainy = Fin 0\<rparr>]
   \<and> heatwaves_aggregate [] =
     [\<lparr>hp_zone = ''North'', heatwaves = Fin 0\<rparr>, \<lparr>hp_zone = ''South'', heatwaves = Fin 0\<rparr>,
      \<lparr>hp_zone = ''West'', heatwaves = Fin 0\<rparr>, \<lparr>hp_zone = ''Houston'', heatwaves = Fin 0\<rparr>]
   \<and> extremeHeat_aggregate [] = Inr []
   \<and> loadByRegion_chartData toLocale [] = []"
  by (simp add: dryVsRainy_aggregate_def dryVsRainy_regionData_def dryVsRainy_point_def
      heatwaves_aggregate_def heatwaves_zoneCount_def extremeHeat_aggregate_def
      extremeHeat_regionMap_def sort_rows_def loadByRegion_chartData_def sampleData_def)

text \<open>ExtremeHeatLoadTable does not give four rows on the empty list.\<close>

theorem extremeHeat_empty_has_no_rows:
  "extremeHeat_aggregate [] = Inr []
   \<and> map rd_region (projr (extremeHeat_aggregate []))
       \<noteq> [Str ''North'', Str ''South'', Str ''West'', Str ''Houston'']"
  by (simp add: extremeHeat_aggregate_def extremeHeat_regionMap_def sort_rows_def)

section \<open>The query of the hourly load\<close>

lemma urlencode_append: "urlencode (a @ b) = urlencode a @ urlencode b"
  by (simp add: urlencode_def)

lemma urlencode_day_start: "urlencode ''T00:00:00'' = ''T00%3A00%3A00''"
  by (simp add: urlencode_def urlencode_char_def unreserved_def hex_digit_def)

lemma urlencode_day_end: "urlencode ''T23:59:59'' = ''T23%3A59%3A59''"
  by (simp add: urlencode_def urlencode_char_def unreserved_def hex_digit_def)

lemma urlencode_names:
  "urlencode ''start_date'' = ''start_date''" "urlencode ''end_date'' = ''end_date''"
  by (simp_all add: urlencode_def urlencode_char_def unreserved_def)

text \<open>
  C6, as the code has it: for a range with both dates non-empty, the parameters of the
  hourly-load query are \<open>start_date\<close>, the start date followed by \<open>T00:00:00\<close>, and
  \<open>end_date\<close>, the end date followed by \<open>T23:59:59\<close>; in the URL the values are
  form-urlencoded, so each colon is written \<open>%3A\<close>.
\<close>

theorem hourly_query_day_bounds:
  "startDate dr \<noteq> [] \<Longrightarrow> endDate dr \<noteq> [] \<Longrightarrow>
   loadByRegion_params dr =
     [(''start_date'', startDate dr @ ''T00:00:00''), (''end_date'', endDate dr @ ''T23:59:59'')]
   \<and> loadByRegion_url env dr =
     API_BASE_URL env @ ''/load/hourly?''
       @ ''start_date='' @ urlencode (startDate dr) @ ''T00%3A00%3A00''
       @ ''&end_date='' @ urlencode (endDate dr) @ ''T23%3A59%3A59''"
  by (simp add: loadByRegion_params_def loadByRegion_url_def append_timestamps_def
        urlencode_append urlencode_day_start urlencode_day_end urlencode_names)

theorem hourly_query_day_bounds_witness:
  "loadByRegion_params \<lparr>startDate = ''2010-06-01'', endDate = ''2010-06-02''\<rparr> =
     [(''start_date'', ''2010-06-01T00:00:00''), (''end_date'', ''2010-06-02T23:59:59'')]
   \<and> loadByRegion_url None \<lparr>startDate = ''2010-06-01'', endDate = ''2010-06-02''\<rparr> =
     ''http://localhost:8000/load/hourly?start_date=2010-06-01T00%3A00%3A00&end_date=2010-06-02T23%3A59%3A59''"
  using hourly_query_day_bounds
    [of "\<lparr>startDate = ''2010-06-01'', endDate = ''2010-06-02''\<rparr>" None]
  by (simp add: API_BASE_URL_def urlencode_def urlencode_char_def unreserved_def)

text \<open>
  The range 2010-06-01..2010-06-02 is not serialized with bare colons.
\<close>

theorem hourly_query_colons_encoded:
  "params_toString (loadByRegion_params \<lparr>startDate = ''2010-06-01'', endDate = ''2010-06-02''\<rparr>)
     = ''start_date=2010-06-01T00%3A00%3A00&end_date=2010-06-02T23%3A59%3A59''
   \<and> params_toString (loadByRegion_params \<lparr>startDate = ''2010-06-01'', endDate = ''2010-06-02''\<rparr>)
     \<noteq> ''start_date=2010-06-01T00:00:00&end_date=2010-06-02T23:59:59''"
  by (simp add: loadByRegion_params_def append_timestamps_def urlencode_def
        urlencode_char_def unreserved_def hex_digit_def)

section \<open>Sampling\<close>

lemma sample_index:
  "0 < m \<Longrightarrow> nat \<lfloor>real i * (real k / real m)\<rfloor> = i * k div m"
proof -
  assume "0 < m"
  have "real i * (real k / real m) = real (i * k) / real m" by simp
  then have "\<lfloor>real i * (real k / real m)\<rfloor> = \<lfloor>real (i * k) / real m\<rfloor>" by simp
  also have "\<dots> = int (i * k div m)" by (rule floor_divide_of_nat_eq)
  finally show ?thesis by simp
qed

lemma sample_index_bound:
  fixes i m k :: nat
  assumes "i < m" "m \<le> k"
  shows "i * k div m < k"
proof -
  have "0 < k" using assms by simp
  have "i * k < m * k" using assms \<open>0 < k\<close> by simp
  then show ?thesis
    by (metis less_mult_imp_div_less mult.commute)
qed

lemma sampleData_small: "length xs \<le> m \<Longrightarrow> sampleData xs m = map Some xs"
  by (simp add: sampleData_def)

lemma sampleData_large:
  assumes "m < length xs"
  shows "sampleData xs m = map (\<lambda>i. Some (xs ! (i * length xs div m))) [0..<m]"
proof (cases "m = 0")
  case True
  then show ?thesis using assms by (simp add: sampleData_def)
next
  case False
  then have m: "0 < m" by simp
  have pointwise: "(if nat \<lfloor>real i * (real (length xs) / real m)\<rfloor> < length xs
         then Some (xs ! nat \<lfloor>real i * (real (length xs) / real m)\<rfloor>) else None)
      = Some (xs ! (i * length xs div m))" if "i \<in> set [0..<m]" for i
  proof -
    from that have i: "i < m" by simp
    have "i * length xs div m < length xs"
      using i assms by (simp add: sample_index_bound)
    then show ?thesis
      by (simp only: sample_index [OF m] if_True)
  qed
  have "\<not> length xs \<le> m" using assms by simp
  then have "sampleData xs m =
      map (\<lambda>i. if nat \<lfloor>real i * (real (length xs) / real m)\<rfloor> < length xs
         then Some (xs ! nat \<lfloor>real i * (real (length xs) / real m)\<rfloor>) else None) [0..<m]"
    by (simp only: sampleData_def Let_def if_False)
  also have "\<dots> = map (\<lambda>i. Some (xs ! (i * length xs div m))) [0..<m]"
    by (rule map_cong [OF refl]) (rule pointwise)
  finally show ?thesis .
qed

lemma length_sampleData: "length (sampleData xs m) \<le> m"
  by (cases "length xs \<le> m") (simp_all add: sampleData_small sampleData_large)

lemma sample_indices_sorted: "sorted (map (\<lambda>i. i * k div m) [0..<n])"
  by (simp add: sorted_map sorted_wrt_iff_nth_less div_le_mono)

text \<open>
  C9: with 100 points \<^verbatim>\<open>sampleData\<close> returns a list of at most 100 elements as it
  is; of a longer list it returns exactly 100 elements, each an element of the list,
  taken at indices inside the list that do not decrease. So the hourly chart has at
  most 100 points, whatever the API returns.
\<close>

theorem sampleData_at_most_100:
  "(length xs \<le> 100 \<longrightarrow> sampleData xs 100 = map Some xs)
   \<and> (100 < length xs \<longrightarrow>
        length (sampleData xs 100) = 100
        \<and> (\<exists>indices. length indices = 100 \<and> sorted indices
              \<and> (\<forall>j \<in> set indices. j < length xs)
              \<and> sampleData xs 100 = map (\<lambda>j. Some (xs ! j)) indices))
   \<and> length (loadByRegion_chartData toLocale apiData) \<le> 100"
proof -
  have a: "length xs \<le> 100 \<longrightarrow> sampleData xs 100 = map Some xs"
    by (simp add: sampleData_small)
  have b: "length (sampleData xs 100) = 100
        \<and> (\<exists>indices. length indices = 100 \<and> sorted indices
              \<and> (\<forall>j \<in> set indices. j < length xs)
              \<and> sampleData xs 100 = map (\<lambda>j. Some (xs ! j)) indices)"
    if long: "100 < length xs"
  proof -
    let ?indices = "map (\<lambda>i. i * length xs div 100) [0..<100]"
    have eq: "sampleData xs 100 = map (\<lambda>j. Some (xs ! j)) ?indices"
      using sampleData_large [OF long] by (simp add: comp_def del: upt.simps)
    have len: "length ?indices = 100" by simp
    have inside: "\<forall>j \<in> set ?indices. j < length xs"
      using long by (auto simp: sample_index_bound simp del: upt.simps)
    have "length (sampleData xs 100) = 100"
      using sampleData_large [OF long] by (simp del: upt.simps)
    then show ?thesis
      using eq len inside sample_indices_sorted [of "length xs" 100 100] by blast
  qed
  have c: "length (loadByRegion_chartData toLocale apiData) \<le> 100"
    using length_sampleData [of "map (hourly_point toLocale) apiData" 100]
    by (simp add: loadByRegion_chartData_def MAX_CHART_POINTS_def)
  from a b c show ?thesis by blast
qed

theorem sampleData_at_most_100_witness:
  "length (sampleData (replicate 250 (7::nat)) 100) = 100
   \<and> sampleData [1, 2, 3::nat] 100 = [Some 1, Some 2, Some 3]"
  using sampleData_at_most_100 [of "replicate 250 (7::nat)"]
    sampleData_at_most_100 [of "[1, 2, 3::nat]"]
  by simp

section \<open>MetricsCard: the groups of a response\<close>

lemma js_mul_one: "js_mul x (Fin 1) = x"
  by (cases x) simp_all

lemma metrics_step_key:
  "metrics_step G m k =
     (if metrics_displayRegion m = k
      then Some (metrics_add (case G k of None \<Rightarrow> empty_group | Some g \<Rightarrow> g) m)
      else G k)"
  by (auto simp: metrics_step_def Let_def)

lemma metrics_fold_key:
  "foldl metrics_step G ms k =
     foldl (\<lambda>g m. Some (metrics_add (case g of None \<Rightarrow> empty_group | Some g' \<Rightarrow> g') m))
       (G k) (filter (\<lambda>m. metrics_displayRegion m = k) ms)"
proof (induction ms arbitrary: G)
  case Nil
  show ?case by simp
next
  case (Cons m ms)
  have "foldl metrics_step G (m # ms) k = foldl metrics_step (metrics_step G m) ms k"
    by simp
  also have "\<dots> =
      foldl (\<lambda>g m. Some (metrics_add (case g of None \<Rightarrow> empty_group | Some g' \<Rightarrow> g') m))
        (metrics_step G m k) (filter (\<lambda>m. metrics_displayRegion m = k) ms)"
    by (rule Cons.IH)
  also have "\<dots> =
      foldl (\<lambda>g m. Some (metrics_add (case g of None \<Rightarrow> empty_group | Some g' \<Rightarrow> g') m))
        (G k) (filter (\<lambda>m. metrics_displayRegion m = k) (m # ms))"
    by (simp add: metrics_step_key)
  finally show ?case .
qed

lemma option_fold_Some:
  "foldl (\<lambda>g m. Some (metrics_add (case g of None \<Rightarrow> empty_group | Some g' \<Rightarrow> g') m)) (Some g) rs
     = Some (foldl metrics_add g rs)"
  by (induction rs arbitrary: g) simp_all

lemma option_fold_None:
  "foldl (\<lambda>g m. Some (metrics_add (case g of None \<Rightarrow> empty_group | Some g' \<Rightarrow> g') m)) None rs
     = (if rs = [] then None else Some (foldl metrics_add empty_group rs))"
  by (cases rs) (simp_all add: option_fold_Some)

lemma metrics_regionGroups_key:
  "metrics_regionGroups apiData k =
     (if metrics_records k apiData = [] then None
      else Some (foldl metrics_add empty_group (metrics_records k apiData)))"
  by (simp add: metrics_regionGroups_def metrics_fold_key option_fold_None metrics_records_def)

lemma metrics_add_fields:
  "totalN (foldl metrics_add g rs) = foldl js_add (totalN g) (map fm_n rs)"
  "weightedMse (foldl metrics_add g rs)
     = foldl js_add (weightedMse g) (map (\<lambda>m. js_mul (fm_mse m) (fm_n m)) rs)"
  "weightedMae (foldl metrics_add g rs)
     = foldl js_add (weightedMae g) (map (\<lambda>m. js_mul (fm_mae m) (fm_n m)) rs)"
  "weightedMape (foldl metrics_add g rs)
     = foldl js_add (weightedMape g) (map (\<lambda>m. js_mul (fm_mape_pct m) (fm_n m)) rs)"
  "weightedR2 (foldl metrics_add g rs)
     = foldl js_add (weightedR2 g) (map (\<lambda>m. js_mul (fm_r2 m) (fm_n m)) rs)"
  by (induction rs arbitrary: g) (simp_all add: metrics_add_def)

lemma unit_weights_total:
  "\<forall>m \<in> set rs. fm_n m = Fin 1 \<Longrightarrow> foldl js_add (Fin a) (map fm_n rs) = Fin (a + real (length rs))"
  by (induction rs arbitrary: a) (simp_all add: add.assoc)

lemma unit_weights_products:
  "\<forall>m \<in> set rs. fm_n m = Fin 1 \<Longrightarrow> map (\<lambda>m. js_mul (f m) (fm_n m)) rs = map f rs"
  by (simp add: js_mul_one)

text \<open>
  C8: when every record of the response has weight \<open>n = 1\<close>, the row MetricsCard
  gives for a region holds, for each of the four metrics, the simple mean of the metric
  over the records of that region (and there is a row exactly when the region has a
  record).
\<close>

theorem weighted_mean_unit_weights:
  assumes "\<forall>metric \<in> set apiData. fm_n metric = Fin 1"
  shows "metricsCard_aggregate apiData k =
     (if metrics_records k apiData = [] then None
      else Some \<lparr>dm_region = k,
                 dm_mape = spec_simple_mean (map fm_mape_pct (metrics_records k apiData)),
                 dm_r2 = spec_simple_mean (map fm_r2 (metrics_records k apiData)),
                 dm_mse = spec_simple_mean (map fm_mse (metrics_records k apiData)),
                 dm_mae = spec_simple_mean (map fm_mae (metrics_records k apiData))\<rparr>)"
proof (cases "metrics_records k apiData = []")
  case True
  then show ?thesis by (simp add: metricsCard_aggregate_def metrics_regionGroups_key)
next
  case False
  let ?rs = "metrics_records k apiData"
  have unit: "\<forall>m \<in> set ?rs. fm_n m = Fin 1"
    using assms by (simp add: metrics_records_def)
  have total: "totalN (foldl metrics_add empty_group ?rs) = Fin (real (length ?rs))"
    using unit_weights_total [OF unit, of 0] by (simp add: metrics_add_fields empty_group_def)
  have pos: "js_gt (Fin (real (length ?rs))) (Fin 0)"
    using False by simp
  have sums: "weightedMape (foldl metrics_add empty_group ?rs) = js_sum (map fm_mape_pct ?rs)"
    "weightedR2 (foldl metrics_add empty_group ?rs) = js_sum (map fm_r2 ?rs)"
    "weightedMse (foldl metrics_add empty_group ?rs) = js_sum (map fm_mse ?rs)"
    "weightedMae (foldl metrics_add empty_group ?rs) = js_sum (map fm_mae ?rs)"
    by (simp_all add: metrics_add_fields unit_weights_products [OF unit] empty_group_def js_sum_def)
  show ?thesis
    using False pos
    by (simp add: metricsCard_aggregate_def metrics_regionGroups_key metrics_display_def
          total sums spec_simple_mean_def)
qed

lemma metrics_records_example:
  "metrics_records ''North''
     [\<lparr>fm_region = ''north'', fm_n = Fin 1, fm_mse = Fin 100, fm_mae = Fin 10, fm_mape_pct = Fin 4, fm_r2 = Fin 1\<rparr>,
      \<lparr>fm_region = ''coast'', fm_n = Fin 1, fm_mse = Fin 7, fm_mae = Fin 7, fm_mape_pct = Fin 7, fm_r2 = Fin 7\<rparr>,
      \<lparr>fm_region = ''north_c'', fm_n = Fin 1, fm_mse = Fin 200, fm_mae = Fin 20, fm_mape_pct = Fin 6, fm_r2 = Fin 0\<rparr>]
   = [\<lparr>fm_region = ''north'', fm_n = Fin 1, fm_mse = Fin 100, fm_mae = Fin 10, fm_mape_pct = Fin 4, fm_r2 = Fin 1\<rparr>,
      \<lparr>fm_region = ''north_c'', fm_n = Fin 1, fm_mse = Fin 200, fm_mae = Fin 20, fm_mape_pct = Fin 6, fm_r2 = Fin 0\<rparr>]"
  by (simp add: metrics_records_def metrics_displayRegion_def get_prop_def or_else_def
      metrics_regionToDisplayMap_def)

theorem weighted_mean_unit_weights_witness:
  "metricsCard_aggregate
     [\<lparr>fm_region = ''north'', fm_n = Fin 1, fm_mse = Fin 100, fm_mae = Fin 10, fm_mape_pct = Fin 4, fm_r2 = Fin 1\<rparr>,
      \<lparr>fm_region = ''coast'', fm_n = Fin 1, fm_mse = Fin 7, fm_mae = Fin 7, fm_mape_pct = Fin 7, fm_r2 = Fin 7\<rparr>,
      \<lparr>fm_region = ''north_c'', fm_n = Fin 1, fm_mse = Fin 200, fm_mae = Fin 20, fm_mape_pct = Fin 6, fm_r2 = Fin 0\<rparr>]
     ''North''
   = Some \<lparr>dm_region = ''North'', dm_mape = Fin 5, dm_r2 = Fin (1 / 2), dm_mse = Fin 150, dm_mae = Fin 15\<rparr>"
  using weighted_mean_unit_weights [of "[\<lparr>fm_region = ''north'', fm_n = Fin 1, fm_mse = Fin 100, fm_mae = Fin 10, fm_mape_pct = Fin 4, fm_r2 = Fin 1\<rparr>,
      \<lparr>fm_region = ''coast'', fm_n = Fin 1, fm_mse = Fin 7, fm_mae = Fin 7, fm_mape_pct = Fin 7, fm_r2 = Fin 7\<rparr>,
      \<lparr>fm_region = ''north_c'', fm_n = Fin 1, fm_mse = Fin 200, fm_mae = Fin 20, fm_mape_pct = Fin 6, fm_r2 = Fin 0\<rparr>]" "''North''"]
  by (simp add: metrics_records_example spec_simple_mean_def js_sum_def)

section \<open>Failed fetches\<close>

lemma starts_with_self: "starts_with pat (pat @ rest)"
  by (induction pat) simp_all

lemma str_includes_Nil: "str_includes [] s"
  by (cases s) simp_all

lemma str_includes_self: "str_includes pat (pat @ rest)"
proof (cases pat)
  case Nil
  then show ?thesis by (simp add: str_includes_Nil)
next
  case (Cons p ps)
  then show ?thesis using starts_with_self [of pat rest] by simp
qed

lemma str_includes_append: "str_includes pat (pre @ pat)"
proof (induction pre)
  case Nil
  show ?case using str_includes_self [of pat "[]"] by simp
next
  case (Cons c pre)
  then show ?case by simp
qed

lemma settle_loading: "loading (settle fallback attempt store s) = False"
  by (simp add: settle_def split: sum.splits)

lemma receive_not_ok: "\<not> ok response \<Longrightarrow> receive f (Resolved response) = Inl (f response)"
  by (simp add: receive_def)

lemma settle_error: "error (settle fallback (Inl (Error m)) store s) = Some m"
  by (simp add: settle_def message_or_def)

lemma then_do_Inl: "then_do (Inl e) f = Inl e"
  by (simp add: then_do_def)

lemma loadByRegion_failure:
  "fetch (loadByRegion_url env dr) = Resolved response \<Longrightarrow> \<not> ok response \<Longrightarrow>
   error (loadByRegion_fetchData fetch toLocale env dr s)
     = Some (''API error: '' @ show_nat (status response))"
  by (simp add: loadByRegion_fetchData_def receive_not_ok then_do_Inl api_error_def settle_error)

lemma dryVsRainy_failure:
  "fetch (dryVsRainy_url env dr) = Resolved response \<Longrightarrow> \<not> ok response \<Longrightarrow>
   error (dryVsRainy_fetchData fetch env dr s)
     = Some (''API error: '' @ show_nat (status response))"
  by (simp add: dryVsRainy_fetchData_def receive_not_ok then_do_Inl api_error_def settle_error)

lemma heatwaves_failure:
  "fetch (heatwaves_url env dr) = Resolved response \<Longrightarrow> \<not> ok response \<Longrightarrow>
   error (heatwaves_fetchData fetch env dr s)
     = Some (''API error: '' @ show_nat (status response))"
  by (simp add: heatwaves_fetchData_def receive_not_ok then_do_Inl api_error_def settle_error)

lemma metrics_failure:
  "fetch (metrics_url env dr model) = Resolved response \<Longrightarrow> \<not> ok response \<Longrightarrow>
   error (metrics_fetchData fetch env dr model s)
     = Some (''API error: '' @ show_nat (status response))"
  by (simp add: metrics_fetchData_def receive_not_ok then_do_Inl api_error_def settle_error)

lemma outlier_failure:
  "fetch (outlier_url env dr) = Resolved response \<Longrightarrow> \<not> ok response \<Longrightarrow>
   error (outlier_fetchData fetch toLocale env dr s)
     = Some (''API error: '' @ show_nat (status response))"
  by (simp add: outlier_fetchData_def receive_not_ok api_error_def settle_error)

lemma historical_failure:
  "fetch (historical_url env dr model) = Resolved response \<Longrightarrow> \<not> ok response \<Longrightarrow>
   error (historical_fetchData fetch toLocale toLocaleDate env dr model s)
     = Some (''API error: '' @ show_nat (status response))"
  by (simp add: historical_fetchData_def receive_not_ok api_error_def settle_error)

lemma extremeHeat_failure:
  "fetch (extremeHeat_url dr) = Resolved response \<Longrightarrow> \<not> ok response \<Longrightarrow>
   error (extremeHeat_fetchData fetch dr s)
     = Some (''Failed to fetch data: '' @ statusText response)"
  by (simp add: extremeHeat_fetchData_def receive_not_ok then_do_Inl failed_to_fetch_def
        settle_error)

lemma show_nat_examples: "show_nat 404 = ''404''" "show_nat 500 = ''500''"
  by (simp_all add: show_nat.simps)

text \<open>
  C3, as the code has it: when the response of a fetch is not ok, the view's error is
  \<open>API error: \<close> followed by the status code in LoadByRegionChart, DryVsRainyChart,
  HeatwavesByZoneChart, MetricsCard, OutlierDetectionCard and HistoricalForecastCard, a
  message that has the code in it; in ExtremeHeatLoadTable it is
  \<open>Failed to fetch data: \<close> followed by the status text. In all seven views the
  loading flag is off after \<^verbatim>\<open>fetchData\<close>, however the fetch went.
\<close>

theorem failed_fetch_reported:
  "(fetchL (loadByRegion_url env dr) = Resolved rL \<and> \<not> ok rL \<longrightarrow>
      error (loadByRegion_fetchData fetchL toLocale env dr sL)
        = Some (''API error: '' @ show_nat (status rL)))
   \<and> (fetchD (dryVsRainy_url env dr) = Resolved rD \<and> \<not> ok rD \<longrightarrow>
      error (dryVsRainy_fetchData fetchD env dr sD)
        = Some (''API error: '' @ show_nat (status rD)))
   \<and> (fetchH (heatwaves_url env dr) = Resolved rH \<and> \<not> ok rH \<longrightarrow>
      error (heatwaves_fetchData fetchH env dr sH)
        = Some (''API error: '' @ show_nat (status rH)))
   \<and> (fetchM (metrics_url env dr model) = Resolved rM \<and> \<not> ok rM \<longrightarrow>
      error (metrics_fetchData fetchM env dr model sM)
        = Some (''API error: '' @ show_nat (status rM)))
   \<and> (fetchO (outlier_url env dr) = Resolved rO \<and> \<not> ok rO \<longrightarrow>
      error (outlier_fetchData fetchO toLocale env dr sO)
        = Some (''API error: '' @ show_nat (status rO)))
   \<and> (fetchC (historical_url env dr model) = Resolved rC \<and> \<not> ok rC \<longrightarrow>
      error (historical_fetchData fetchC toLocale toLocaleDate env dr model sC)
        = Some (''API error: '' @ show_nat (status rC)))
   \<and> (fetchE (extremeHeat_url dr) = Resolved rE \<and> \<not> ok rE \<longrightarrow>
      error (extremeHeat_fetchData fetchE dr sE)
        = Some (''Failed to fetch data: '' @ statusText rE))
   \<and> str_includes (show_nat code) (''API error: '' @ show_nat code)
   \<and> \<not> loading (loadByRegion_fetchData fetchL toLocale env dr sL)
   \<and> \<not> loading (dryVsRainy_fetchData fetchD env dr sD)
   \<and> \<not> loading (heatwaves_fetchData fetchH env dr sH)
   \<and> \<not> loading (metrics_fetchData fetchM env dr model sM)
   \<and> \<not> loading (outlier_fetchData fetchO toLocale env dr sO)
   \<and> \<not> loading (historical_fetchData fetchC toLocale toLocaleDate env dr model sC)
   \<and> \<not> loading (extremeHeat_fetchData fetchE dr sE)"
proof -
  have inc: "str_includes (show_nat code) (''API error: '' @ show_nat code)"
    by (rule str_includes_append)
  have l: "\<not> loading (loadByRegion_fetchData fetchL toLocale env dr sL)"
    "\<not> loading (dryVsRainy_fetchData fetchD env dr sD)"
    "\<not> loading (heatwaves_fetchData fetchH env dr sH)"
    "\<not> loading (metrics_fetchData fetchM env dr model sM)"
    "\<not> loading (outlier_fetchData fetchO toLocale env dr sO)"
    "\<not> loading (historical_fetchData fetchC toLocale toLocaleDate env dr model sC)"
    "\<not> loading (extremeHeat_fetchData fetchE dr sE)"
    by (simp_all add: loadByRegion_fetchData_def dryVsRainy_fetchData_def
          heatwaves_fetchData_def metrics_fetchData_def outlier_fetchData_def
          historical_fetchData_def extremeHeat_fetchData_def settle_loading)
  show ?thesis
    using inc l loadByRegion_failure [of fetchL env dr rL toLocale sL]
      dryVsRainy_failure [of fetchD env dr rD sD]
      heatwaves_failure [of fetchH env dr rH sH]
      metrics_failure [of fetchM env dr model rM sM]
      outlier_failure [of fetchO env dr rO toLocale sO]
      historical_failure [of fetchC env dr model rC toLocale toLocaleDate sC]
      extremeHeat_failure [of fetchE dr rE sE]
    by blast
qed

theorem failed_fetch_reported_witness:
  "error (dryVsRainy_fetchData server_error None initialRange loading_view)
     = Some ''API error: 500''
   \<and> error (extremeHeat_fetchData not_found initialRange loading_view)
     = Some ''Failed to fetch data: Not Found''
   \<and> \<not> loading (extremeHeat_fetchData not_found initialRange loading_view)"
  using failed_fetch_reported
    [where fetchD = server_error
      and rD = "\<lparr>status = 500, statusText = ''Internal Server Error'', json = Inr []\<rparr>"
      and fetchE = not_found
      and rE = "\<lparr>status = 404, statusText = ''Not Found'', json = Inr []\<rparr>"
      and env = None and dr = initialRange
      and sD = loading_view and sE = loading_view]
  by (simp add: ok_def show_nat_examples server_error_def not_found_def)

text \<open>
  On a 404 the error of ExtremeHeatLoadTable does not have the status code in it.
\<close>

theorem extremeHeat_error_without_code:
  "error (extremeHeat_fetchData not_found initialRange loading_view)
     = Some ''Failed to fetch data: Not Found''
   \<and> \<not> str_includes (show_nat 404) ''Failed to fetch data: Not Found''"
  by (simp add: extremeHeat_fetchData_def receive_def ok_def then_do_def failed_to_fetch_def
        settle_def message_or_def begin_fetch_def show_nat.simps not_found_def
        loading_view_def)

section \<open>Association lists and lookups\<close>






lemma get_prop_unknown:
  "map_of tbl z = None \<Longrightarrow> z \<notin> set object_prototype_keys \<Longrightarrow> get_prop tbl z = Undefined"
  by (simp add: get_prop_def)










section \<open>Records of unknown zones\<close>

lemma dryVsRainy_forEach_append:
  "dryVsRainy_forEach rd (xs @ ys) =
     (case dryVsRainy_forEach rd xs of Inl e \<Rightarrow> Inl e | Inr rd' \<Rightarrow> dryVsRainy_forEach rd' ys)"
  by (induction xs arbitrary: rd) (simp_all split: sum.splits)

lemma dryVsRainy_unknown:
  assumes "get_prop dryVsRainy_zoneToRegionMap (precip_zone p) = Undefined"
  shows "dryVsRainy_aggregate (xs @ p # ys) = dryVsRainy_aggregate (xs @ ys)"
proof -
  have "\<And>rd. dryVsRainy_step rd p = Inr rd"
    using assms by (simp add: dryVsRainy_step_def)
  then have "\<And>rd. dryVsRainy_forEach rd (p # ys) = dryVsRainy_forEach rd ys"
    by simp
  then show ?thesis
    by (simp add: dryVsRainy_aggregate_def dryVsRainy_forEach_append split: sum.splits)
qed

lemma heatwaves_unknown:
  assumes "get_prop heatwaves_zoneToDisplayMap (hw_zone h) = Undefined"
  shows "heatwaves_aggregate (xs @ h # ys) = heatwaves_aggregate (xs @ ys)"
proof -
  have "\<And>zc. heatwaves_step zc h = zc"
    using assms by (simp add: heatwaves_step_def)
  then show ?thesis by (simp add: heatwaves_aggregate_def)
qed

lemma extremeHeat_unknown:
  assumes "get_prop extremeHeat_zoneToRegionMap (eh_zone e) = Undefined"
  shows "extremeHeat_aggregate (xs @ e # ys) = extremeHeat_aggregate (xs @ ys)"
proof -
  have "\<And>rm. extremeHeat_step rm e = rm"
    using assms by (simp add: extremeHeat_step_def)
  then show ?thesis by (simp add: extremeHeat_aggregate_def extremeHeat_regionMap_def)
qed

lemma metrics_key_unknown:
  "get_prop metrics_regionToDisplayMap (fm_region m) = Undefined
     \<Longrightarrow> metrics_displayRegion m = fm_region m"
  by (simp add: metrics_displayRegion_def or_else_def)

lemma metrics_other_key:
  assumes "metrics_displayRegion m \<noteq> d"
  shows "metricsCard_aggregate (xs @ m # ys) d = metricsCard_aggregate (xs @ ys) d"
  using assms
  by (simp add: metricsCard_aggregate_def metrics_regionGroups_key metrics_records_def)

lemma metrics_own_key:
  "metricsCard_aggregate (xs @ m # ys) (metrics_displayRegion m) \<noteq> None"
  by (simp add: metricsCard_aggregate_def metrics_regionGroups_key metrics_records_def)

lemma outlier_other_region:
  assumes "get_prop outlier_regionToDisplayMap (lo_region x) = Undefined"
    "d \<noteq> lo_region x" "d \<noteq> ''All''"
  shows "residualsFiltered d (outlier_scatterData toLocale (xs @ x # ys))
     = residualsFiltered d (outlier_scatterData toLocale (xs @ ys))"
  using assms by (auto simp: residualsFiltered_def outlier_scatterData_def or_else_def)

text \<open>
  C2, as the code has it. Let a zone identifier be no key of the zone table and no name
  of a member of \<^verbatim>\<open>Object.prototype\<close>. DryVsRainyChart, HeatwavesByZoneChart and
  ExtremeHeatLoadTable skip a record with this identifier: their output is the same
  with the record, at any place of the list, as without it. MetricsCard and
  OutlierDetectionCard keep the record under its own identifier: MetricsCard gets a
  row for the identifier, the rows of all other keys are as without the record, and so
  are the points OutlierDetectionCard shows for any other region (for the outliers the
  identifier is also not \<open>ercot\<close>).
\<close>

theorem unknown_zone_records:
  "map_of dryVsRainy_zoneToRegionMap z = None \<Longrightarrow> z \<notin> set object_prototype_keys \<Longrightarrow>
   dryVsRainy_aggregate (ps @ p\<lparr>precip_zone := z\<rparr> # ps') = dryVsRainy_aggregate (ps @ ps')
   \<and> heatwaves_aggregate (hs @ h\<lparr>hw_zone := z\<rparr> # hs') = heatwaves_aggregate (hs @ hs')
   \<and> extremeHeat_aggregate (es @ e\<lparr>eh_zone := z\<rparr> # es') = extremeHeat_aggregate (es @ es')
   \<and> (d \<noteq> z \<longrightarrow>
        metricsCard_aggregate (ms @ m\<lparr>fm_region := z\<rparr> # ms') d
          = metricsCard_aggregate (ms @ ms') d)
   \<and> metricsCard_aggregate (ms @ m\<lparr>fm_region := z\<rparr> # ms') z \<noteq> None
   \<and> (z \<noteq> ''ercot'' \<and> d \<noteq> z \<and> d \<noteq> ''All'' \<longrightarrow>
        residualsFiltered d (outlier_scatterData toLocale (os @ x\<lparr>lo_region := z\<rparr> # os'))
          = residualsFiltered d (outlier_scatterData toLocale (os @ os')))"
proof -
  assume none: "map_of dryVsRainy_zoneToRegionMap z = None"
    and plain: "z \<notin> set object_prototype_keys"
  have a: "get_prop dryVsRainy_zoneToRegionMap z = Undefined"
    "get_prop heatwaves_zoneToDisplayMap z = Undefined"
    "get_prop extremeHeat_zoneToRegionMap z = Undefined"
    "get_prop metrics_regionToDisplayMap z = Undefined"
    using none plain by (simp_all add: get_prop_unknown tables_same)
  have o: "z \<noteq> ''ercot'' \<longrightarrow> get_prop outlier_regionToDisplayMap z = Undefined"
    using none plain by (simp add: get_prop_unknown outlier_table)
  have 1: "dryVsRainy_aggregate (ps @ p\<lparr>precip_zone := z\<rparr> # ps') = dryVsRainy_aggregate (ps @ ps')"
    by (rule dryVsRainy_unknown) (simp add: a)
  have 2: "heatwaves_aggregate (hs @ h\<lparr>hw_zone := z\<rparr> # hs') = heatwaves_aggregate (hs @ hs')"
    by (rule heatwaves_unknown) (simp add: a)
  have 3: "extremeHeat_aggregate (es @ e\<lparr>eh_zone := z\<rparr> # es') = extremeHeat_aggregate (es @ es')"
    by (rule extremeHeat_unknown) (simp add: a)
  have key: "metrics_displayRegion (m\<lparr>fm_region := z\<rparr>) = z"
    using metrics_key_unknown [of "m\<lparr>fm_region := z\<rparr>"] a by simp
  have 4: "d \<noteq> z \<longrightarrow>
        metricsCard_aggregate (ms @ m\<lparr>fm_region := z\<rparr> # ms') d
          = metricsCard_aggregate (ms @ ms') d"
    using metrics_other_key [of "m\<lparr>fm_region := z\<rparr>" d ms ms'] key by simp
  have 5: "metricsCard_aggregate (ms @ m\<lparr>fm_region := z\<rparr> # ms') z \<noteq> None"
    using metrics_own_key [of ms "m\<lparr>fm_region := z\<rparr>" ms'] key by simp
  have 6: "z \<noteq> ''ercot'' \<and> d \<noteq> z \<and> d \<noteq> ''All'' \<longrightarrow>
        residualsFiltered d (outlier_scatterData toLocale (os @ x\<lparr>lo_region := z\<rparr> # os'))
          = residualsFiltered d (outlier_scatterData toLocale (os @ os'))"
    using outlier_other_region [of "x\<lparr>lo_region := z\<rparr>" d toLocale os os'] o by simp
  from 1 2 3 4 5 6 show ?thesis by blast
qed

theorem unknown_zone_records_witness:
  "dryVsRainy_aggregate
     [\<lparr>precip_zone = ''north'', rainy_day = False, avg_load_mw = Fin 100, num_days = Fin 3\<rparr>,
      \<lparr>precip_zone = ''garbage'', rainy_day = False, avg_load_mw = Fin 900, num_days = Fin 1\<rparr>]
   = dryVsRainy_aggregate
     [\<lparr>precip_zone = ''north'', rainy_day = False, avg_load_mw = Fin 100, num_days = Fin 3\<rparr>]
   \<and> metricsCard_aggregate
        [\<lparr>fm_region = ''garbage'', fm_n = Fin 1, fm_mse = Fin 9, fm_mae = Fin 9,
          fm_mape_pct = Fin 9, fm_r2 = Fin 9\<rparr>] ''North''
      = metricsCard_aggregate [] ''North''
   \<and> metricsCard_aggregate
        [\<lparr>fm_region = ''garbage'', fm_n = Fin 1, fm_mse = Fin 9, fm_mae = Fin 9,
          fm_mape_pct = Fin 9, fm_r2 = Fin 9\<rparr>] ''garbage'' \<noteq> None"
  using unknown_zone_records [where z = "''garbage''" and d = "''North''"
      and ps = "[\<lparr>precip_zone = ''north'', rainy_day = False, avg_load_mw = Fin 100, num_days = Fin 3\<rparr>]"
      and ps' = "[]"
      and p = "\<lparr>precip_zone = ''garbage'', rainy_day = False, avg_load_mw = Fin 900, num_days = Fin 1\<rparr>"
      and ms = "[]" and ms' = "[]"
      and m = "\<lparr>fm_region = ''garbage'', fm_n = Fin 1, fm_mse = Fin 9, fm_mae = Fin 9,
          fm_mape_pct = Fin 9, fm_r2 = Fin 9\<rparr>"]
  by (simp add: dryVsRainy_zoneToRegionMap_def object_prototype_keys_def)

text \<open>
  \<open>North\<close> is no key of MetricsCard's table, and a record with this identifier is
  counted in the row of North. \<open>constructor\<close> is no key of DryVsRainyChart's
  table, and a record with this zone makes the aggregation throw.
\<close>

theorem unknown_identifiers_not_excluded:
  "map_of metrics_regionToDisplayMap ''North'' = None
   \<and> map_option dm_mse (metricsCard_aggregate
       [\<lparr>fm_region = ''north'', fm_n = Fin 1, fm_mse = Fin 100, fm_mae = Fin 10,
         fm_mape_pct = Fin 4, fm_r2 = Fin 1\<rparr>] ''North'') = Some (Fin 100)
   \<and> map_option dm_mse (metricsCard_aggregate
       [\<lparr>fm_region = ''north'', fm_n = Fin 1, fm_mse = Fin 100, fm_mae = Fin 10,
         fm_mape_pct = Fin 4, fm_r2 = Fin 1\<rparr>,
        \<lparr>fm_region = ''North'', fm_n = Fin 1, fm_mse = Fin 300, fm_mae = Fin 10,
         fm_mape_pct = Fin 4, fm_r2 = Fin 1\<rparr>] ''North'') = Some (Fin 200)
   \<and> map_of dryVsRainy_zoneToRegionMap ''constructor'' = None
   \<and> dryVsRainy_aggregate
       [\<lparr>precip_zone = ''constructor'', rainy_day = False, avg_load_mw = Fin 1,
         num_days = Fin 1\<rparr>] = Inl (cannot_read ''dry'')"
  by (simp add: metricsCard_aggregate_def metrics_regionGroups_def metrics_step_def
      metrics_displayRegion_def get_prop_def or_else_def metrics_regionToDisplayMap_def
      metrics_add_def empty_group_def metrics_display_def Let_def object_prototype_keys_def
      dryVsRainy_aggregate_def dryVsRainy_step_def dryVsRainy_zoneToRegionMap_def
      dryVsRainy_regionData_def)

section \<open>Regions without records\<close>











end
